theory Spec2Isabelle
  imports Main
begin

section \<open>JavaScript strings\<close>

text \<open>
  A JavaScript string is a sequence of UTF-16 code units. The model keeps the code units
  as natural numbers, so that the white space of \<^verbatim>\<open>String.prototype.trim\<close> and the
  result of \<^verbatim>\<open>decodeURIComponent\<close> are the ones of the language, also beyond Latin-1.
  \<open>js\<close> reads a literal of the source.
\<close>

type_synonym jsstring = "nat list"

definition js :: "string \<Rightarrow> jsstring" where
  "js s = map of_char s"

text \<open>\<^verbatim>\<open>a || b\<close> on strings: the empty string is the only falsy string.\<close>

definition or_else :: "jsstring \<Rightarrow> jsstring \<Rightarrow> jsstring" where
  "or_else a b = (if a \<noteq> [] then a else b)"

text \<open>
  \<^verbatim>\<open>(el && el.value) || d\<close>: \<open>None\<close> is an element that \<^verbatim>\<open>getElementById\<close> did
  not find (\<^verbatim>\<open>null\<close>), \<open>Some v\<close> an input control whose value is \<open>v\<close>.
\<close>

definition value_or :: "jsstring option \<Rightarrow> jsstring \<Rightarrow> jsstring" where
  "value_or el d = (case el of None \<Rightarrow> d | Some v \<Rightarrow> or_else v d)"

text \<open>
  White space and line terminators of ECMAScript, which \<^verbatim>\<open>trim\<close> strips: TAB, LF, VT, FF,
  CR, SP, NBSP, U+1680, U+2000 to U+200A, U+2028, U+2029, U+202F, U+205F, U+3000, U+FEFF.
\<close>

definition is_js_space :: "nat \<Rightarrow> bool" where
  "is_js_space c \<longleftrightarrow>
     (9 \<le> c \<and> c \<le> 13) \<or> c = 32 \<or> c = 160 \<or> c = 5760 \<or> (8192 \<le> c \<and> c \<le> 8202) \<or>
     c = 8232 \<or> c = 8233 \<or> c = 8239 \<or> c = 8287 \<or> c = 12288 \<or> c = 65279"

definition trim :: "jsstring \<Rightarrow> jsstring" where
  "trim s = rev (dropWhile is_js_space (rev (dropWhile is_js_space s)))"

text \<open>\<^verbatim>\<open>Array.prototype.join\<close>.\<close>

fun join :: "jsstring \<Rightarrow> jsstring list \<Rightarrow> jsstring" where
  "join sep [] = []"
| "join sep [x] = x"
| "join sep (x # y # ys) = x @ sep @ join sep (y # ys)"

text \<open>ASCII case folding, which is all that the \<^verbatim>\<open>i\<close> flag does against an ASCII pattern,
  and all that a header name is compared by.\<close>

definition lower :: "nat \<Rightarrow> nat" where
  "lower c = (if 65 \<le> c \<and> c \<le> 90 then c + 32 else c)"

text \<open>Decimal rendering of a number inside a template literal.\<close>

fun decimal :: "nat \<Rightarrow> jsstring" where
  "decimal n = (if n < 10 then [48 + n] else decimal (n div 10) @ [48 + n mod 10])"

declare decimal.simps [simp del]

section \<open>Response headers\<close>

text \<open>
  \<^verbatim>\<open>Headers.get\<close> of the Fetch API and of node-fetch: the name is compared without
  regard to case, the values of a repeated header are joined by a comma and a space, and
  a header that is not there gives \<^verbatim>\<open>null\<close>.
\<close>

type_synonym headers = "(jsstring \<times> jsstring) list"

definition headers_get :: "headers \<Rightarrow> jsstring \<Rightarrow> jsstring option" where
  "headers_get hs name =
     (let vs = map snd (filter (\<lambda>h. map lower (fst h) = map lower name) hs)
      in if vs = [] then None else Some (join (js '', '') vs))"

section \<open>The file name of the download\<close>

text \<open>
  The group of \<^verbatim>\<open>/filename\*?=([^;]+)/i\<close> when the pattern matches at the head of the
  string. \<open>after_eq\<close> is \<^verbatim>\<open>=([^;]+)\<close>: the class takes every character up to the next
  semicolon and needs one at least. The optional star is tried first, then left out.
\<close>

definition after_eq :: "jsstring \<Rightarrow> jsstring option" where
  "after_eq r =
     (case r of
        [] \<Rightarrow> None
      | c # u \<Rightarrow>
          if c = 61 then (let g = takeWhile (\<lambda>x. x \<noteq> 59) u in if g = [] then None else Some g)
          else None)"

definition match_at :: "jsstring \<Rightarrow> jsstring option" where
  "match_at s =
     (if map lower (take 8 s) = js ''filename'' then
        (let r = drop 8 s in
         case r of
           [] \<Rightarrow> None
         | c # t \<Rightarrow>
             if c = 42 then (case after_eq t of Some g \<Rightarrow> Some g | None \<Rightarrow> after_eq r)
             else after_eq r)
      else None)"

text \<open>\<^verbatim>\<open>cd.match(...)\<close>: the leftmost position where the pattern matches; \<open>None\<close> is
  \<^verbatim>\<open>null\<close>, \<open>Some g\<close> a match whose group \<^verbatim>\<open>m[1]\<close> is \<open>g\<close>.\<close>

fun match_filename :: "jsstring \<Rightarrow> jsstring option" where
  "match_filename [] = None"
| "match_filename (c # cs) =
     (case match_at (c # cs) of Some g \<Rightarrow> Some g | None \<Rightarrow> match_filename cs)"

text \<open>\<^verbatim>\<open>.replace(/UTF-8''/i, '')\<close>: without the \<^verbatim>\<open>g\<close> flag only the leftmost
  occurrence goes.\<close>

fun strip_utf8_prefix :: "jsstring \<Rightarrow> jsstring" where
  "strip_utf8_prefix [] = []"
| "strip_utf8_prefix (c # cs) =
     (if map lower (take 7 (c # cs)) = js ''utf-8'' @ [39, 39] then drop 7 (c # cs)
      else c # strip_utf8_prefix cs)"

text \<open>\<^verbatim>\<open>.replace(/['"]/g, '')\<close>: every single and double quote goes.\<close>

definition strip_quotes :: "jsstring \<Rightarrow> jsstring" where
  "strip_quotes s = filter (\<lambda>c. c \<noteq> 39 \<and> c \<noteq> 34) s"

subsection \<open>decodeURIComponent\<close>

text \<open>
  The \<^verbatim>\<open>Decode\<close> operation of ECMAScript with an empty reserved set. A character other
  than the percent sign is kept. A percent sign starts an escape \<^verbatim>\<open>%XX\<close>; an octet below
  128 is the character itself, any other octet leads a UTF-8 sequence of two to four
  escapes, whose code point is written in UTF-16. Every malformed input throws
  \<^verbatim>\<open>URIError\<close>, here \<open>None\<close>.
\<close>

definition hex_val :: "nat \<Rightarrow> nat option" where
  "hex_val c =
     (if 48 \<le> c \<and> c \<le> 57 then Some (c - 48)
      else if 65 \<le> c \<and> c \<le> 70 then Some (c - 55)
      else if 97 \<le> c \<and> c \<le> 102 then Some (c - 87)
      else None)"

text \<open>One escape at the head of the string: its octet and the rest.\<close>

definition pct_octet :: "jsstring \<Rightarrow> (nat \<times> jsstring) option" where
  "pct_octet s =
     (case s of
        p # h # l # rest \<Rightarrow>
          if p = 37 then
            (case (hex_val h, hex_val l) of
               (Some a, Some b) \<Rightarrow> Some (16 * a + b, rest)
             | _ \<Rightarrow> None)
          else None
      | _ \<Rightarrow> None)"

fun pct_octets :: "nat \<Rightarrow> jsstring \<Rightarrow> (nat list \<times> jsstring) option" where
  "pct_octets 0 s = Some ([], s)"
| "pct_octets (Suc n) s =
     (case pct_octet s of
        None \<Rightarrow> None
      | Some (b, r) \<Rightarrow>
          (case pct_octets n r of None \<Rightarrow> None | Some (bs, r') \<Rightarrow> Some (b # bs, r')))"

text \<open>The number of leading one bits of an octet.\<close>

definition leading_ones :: "nat \<Rightarrow> nat" where
  "leading_ones b =
     (if b < 128 then 0 else if b < 192 then 1 else if b < 224 then 2
      else if b < 240 then 3 else if b < 248 then 4 else 5)"

text \<open>
  The code point of a UTF-8 sequence, given its leading octet and its continuation
  octets. \<open>None\<close> when a continuation octet is not of the form \<^verbatim>\<open>10xxxxxx\<close>, when the
  encoding is longer than the code point needs, or when the code point is a surrogate or
  lies beyond U+10FFFF.
\<close>

definition utf8_code_point :: "nat \<Rightarrow> nat list \<Rightarrow> nat option" where
  "utf8_code_point b bs =
     (let n = Suc (length bs);
          v = foldl (\<lambda>acc c. acc * 64 + c mod 64) (b mod 2 ^ (7 - n)) bs;
          least = (if n = 2 then 128 else if n = 3 then 2048 else 65536)
      in if list_all (\<lambda>c. 128 \<le> c \<and> c < 192) bs \<and> least \<le> v \<and> v \<le> 1114111 \<and>
            \<not> (55296 \<le> v \<and> v \<le> 57343)
         then Some v else None)"

definition utf16_encode :: "nat \<Rightarrow> jsstring" where
  "utf16_encode v =
     (if v < 65536 then [v]
      else [55296 + (v - 65536) div 1024, 56320 + (v - 65536) mod 1024])"

lemma pct_octet_shorter: "pct_octet s = Some (b, r) \<Longrightarrow> length r < length s"
  by (auto simp: pct_octet_def split: list.splits if_splits option.splits)

lemma pct_octets_shorter: "pct_octets n s = Some (bs, r) \<Longrightarrow> length r \<le> length s"
proof (induction n arbitrary: s bs r)
  case 0
  then show ?case by simp
next
  case (Suc n)
  then show ?case
    by (fastforce split: option.splits dest: pct_octet_shorter)
qed

function decodeURIComponent :: "jsstring \<Rightarrow> jsstring option" where
  "decodeURIComponent [] = Some []"
| "decodeURIComponent (c # cs) =
     (if c \<noteq> 37 then map_option ((#) c) (decodeURIComponent cs)
      else
        (case pct_octet (c # cs) of
           None \<Rightarrow> None
         | Some (b, r) \<Rightarrow>
             (let n = leading_ones b in
              if n = 0 then map_option ((#) b) (decodeURIComponent r)
              else if n = 1 \<or> 4 < n then None
              else
                (case pct_octets (n - 1) r of
                   None \<Rightarrow> None
                 | Some (bs, r') \<Rightarrow>
                     (case utf8_code_point b bs of
                        None \<Rightarrow> None
                      | Some v \<Rightarrow> map_option ((@) (utf16_encode v)) (decodeURIComponent r'))))))"
  by pat_completeness auto
termination
proof (relation "measure length")
  show "wf (measure length)" by simp
next
  fix c :: nat and cs :: jsstring
  show "(cs, c # cs) \<in> measure length" by simp
next
  fix c :: nat and cs x2 and b :: nat and r
  assume "pct_octet (c # cs) = Some x2" "(b, r) = x2"
  then show "(r, c # cs) \<in> measure length"
    using pct_octet_shorter [of "c # cs" b r] by simp
next
  fix c :: nat and cs x2 and b :: nat and r n x2a bs r'
  assume "pct_octet (c # cs) = Some x2" "(b, r) = x2"
    and "pct_octets (n - 1) r = Some x2a" "(bs, r') = x2a"
  then show "(r', c # cs) \<in> measure length"
    using pct_octet_shorter [of "c # cs" b r] pct_octets_shorter [of "n - 1" r bs r'] by simp
qed

section \<open>The client orchestrator (frontend/script.js)\<close>

subsection \<open>The page and the network\<close>

text \<open>
  What the click listener reads and writes. An element is \<open>None\<close> when
  \<^verbatim>\<open>document.getElementById\<close> found none, and the value of its control otherwise; the
  provider group holds its \<^verbatim>\<open>input[name="hwprov"]\<close> boxes in document order;
  \<open>access_token\<close> is \<^verbatim>\<open>localStorage.getItem('access_token')\<close>. The listener writes the
  button's \<^verbatim>\<open>disabled\<close> and \<^verbatim>\<open>textContent\<close>, and \<open>phaseTimer\<close> says whether the interval
  of the progress phases is running. The callbacks of that interval only write the
  progress label; they and the console log are not part of the state.
\<close>

record hwprov_input =
  checked :: bool
  input_value :: jsstring

record page =
  access_token :: "jsstring option"
  clientNameEl :: "jsstring option"
  industrySelect :: "jsstring option"
  industryCustomEl :: "jsstring option"
  deploymentEl :: "jsstring option"
  proposalTypeEl :: "jsstring option"
  requirementsEl :: "jsstring option"
  boqTextEl :: "jsstring option"
  hwprovGroupEl :: "hwprov_input list option"
  btn_disabled :: bool
  btn_textContent :: jsstring
  phaseTimer :: bool

record payload =
  customer_name :: jsstring
  industry :: jsstring
  deployment_type :: jsstring
  proposal_type :: jsstring
  hardware_choice :: jsstring
  requirements_text :: jsstring
  client_requirements :: jsstring
  client_boq :: jsstring
  boq_text :: jsstring

type_synonym blob = "nat list"

text \<open>A thrown value: its \<^verbatim>\<open>message\<close> and what it is as a string.\<close>

datatype thrown = Thrown jsstring jsstring

text \<open>
  The response of \<^verbatim>\<open>fetch\<close>. \<^verbatim>\<open>resp.text()\<close> and \<^verbatim>\<open>resp.blob()\<close> are promises: \<open>None\<close> and
  \<open>Inl e\<close> are their rejections. \<open>Rejected e\<close> is a \<^verbatim>\<open>fetch\<close> that rejects with \<open>e\<close>.
\<close>

record response =
  status :: nat
  resp_headers :: headers
  text_result :: "jsstring option"
  blob_result :: "thrown + blob"

datatype fetch_result = Rejected thrown | Resolved response

text \<open>What the listener does to the world outside the page record, in order.\<close>

datatype effect =
    Toast jsstring
  | Alert jsstring
  | Navigate jsstring
  | ShowProgress jsstring
  | SetPhase jsstring
  | DoneProgress bool
  | Fetch jsstring headers payload
  | Download jsstring blob

datatype completion = Normal | Return | Throw thrown

subsection \<open>Helpers of the script\<close>

definition getToken :: "page \<Rightarrow> jsstring" where
  "getToken pg = value_or (access_token pg) []"

definition isAuthed :: "page \<Rightarrow> bool" where
  "isAuthed pg \<longleftrightarrow> getToken pg \<noteq> []"

definition authHeaders :: "page \<Rightarrow> headers \<Rightarrow> headers" where
  "authHeaders pg h =
     (let token = getToken pg
      in if token \<noteq> [] then h @ [(js ''Authorization'', js ''Bearer '' @ token)] else h)"

definition handle401 :: "response \<Rightarrow> bool \<times> effect list" where
  "handle401 resp =
     (if status resp = 401 then
        (True, [Toast (js ''Session expired or not logged in. Please login.''),
                Navigate (js ''login.html'')])
      else (False, []))"

definition getSelectedHardwareProviders :: "hwprov_input list option \<Rightarrow> jsstring" where
  "getSelectedHardwareProviders hwprovGroup =
     (case hwprovGroup of
        None \<Rightarrow> []
      | Some inputs \<Rightarrow>
          (let vals = filter (\<lambda>v. v \<noteq> []) (map (\<lambda>i. trim (input_value i)) (filter checked inputs))
           in join (js '', '') vals))"

subsection \<open>The payload\<close>

definition apiDeployment :: "jsstring \<Rightarrow> jsstring" where
  "apiDeployment rawDeployment =
     (if rawDeployment = js ''onsite'' then js ''on-premise''
      else if rawDeployment = js ''dark_site'' then js ''dark-site''
      else or_else rawDeployment (js ''hybrid''))"

definition industryVal :: "page \<Rightarrow> jsstring" where
  "industryVal pg =
     (case industrySelect pg of
        None \<Rightarrow> []
      | Some v \<Rightarrow> if v = js ''other'' then value_or (industryCustomEl pg) [] else v)"

definition build_payload :: "page \<Rightarrow> payload" where
  "build_payload pg =
     (let clientName = value_or (clientNameEl pg) (js ''Client'');
          reqText = value_or (requirementsEl pg) [];
          rawDeployment = value_or (deploymentEl pg) [];
          proposalTypeVal = value_or (proposalTypeEl pg) (js ''detailed'');
          hwSelected = getSelectedHardwareProviders (hwprovGroupEl pg);
          boqVal = value_or (boqTextEl pg) []
      in \<lparr> customer_name = clientName,
           industry = or_else (industryVal pg) [],
           deployment_type = apiDeployment rawDeployment,
           proposal_type = proposalTypeVal,
           hardware_choice = or_else hwSelected (js ''Nutanix''),
           requirements_text = reqText,
           client_requirements = reqText,
           client_boq = boqVal,
           boq_text = boqVal \<rparr>)"

subsection \<open>The file name from the response\<close>

text \<open>
  Lines 193 to 198. The message of the \<^verbatim>\<open>URIError\<close> is the engine's; the one of V8 stands
  here.
\<close>

definition uri_error :: thrown where
  "uri_error = Thrown (js ''URI malformed'') (js ''URIError: URI malformed'')"

definition derive_filename :: "headers \<Rightarrow> thrown + jsstring" where
  "derive_filename hs =
     (let cd = value_or (headers_get hs (js ''Content-Disposition''))
                 (value_or (headers_get hs (js ''content-disposition'')) []);
          m = (if cd \<noteq> [] then match_filename cd else None)
      in case m of
           None \<Rightarrow> Inr (js ''proposal.docx'')
         | Some g \<Rightarrow>
             if g \<noteq> [] then
               (case decodeURIComponent (strip_quotes (strip_utf8_prefix g)) of
                  None \<Rightarrow> Inl uri_error
                | Some filename \<Rightarrow> Inr filename)
             else Inr (js ''proposal.docx''))"

subsection \<open>The click listener\<close>

definition resp_ok :: "response \<Rightarrow> bool" where
  "resp_ok resp \<longleftrightarrow> 200 \<le> status resp \<and> status resp \<le> 299"

definition api_error :: "response \<Rightarrow> thrown" where
  "api_error resp =
     (let text = (case text_result resp of None \<Rightarrow> js ''<no body>'' | Some t \<Rightarrow> t);
          msg = js ''Generate API error '' @ decimal (status resp) @ js '': '' @ take 500 text
      in Thrown msg (js ''Error: '' @ msg))"

text \<open>The body of \<^verbatim>\<open>try\<close>, from the settled \<^verbatim>\<open>fetch\<close> on: how it completes, the page
  and the effects.\<close>

definition try_block :: "page \<Rightarrow> jsstring \<Rightarrow> fetch_result \<Rightarrow> completion \<times> page \<times> effect list" where
  "try_block pg oldLabel net =
     (case net of
        Rejected e \<Rightarrow> (Throw e, pg, [])
      | Resolved resp \<Rightarrow>
          (case handle401 resp of
             (True, es) \<Rightarrow>
               (Return,
                pg\<lparr>phaseTimer := False, btn_disabled := False, btn_textContent := oldLabel\<rparr>,
                es @ [DoneProgress False])
           | (False, es) \<Rightarrow>
               if \<not> resp_ok resp then (Throw (api_error resp), pg, es)
               else
                 (case blob_result resp of
                    Inl e \<Rightarrow> (Throw e, pg, es @ [SetPhase (js ''Downloading'' @ [8230])])
                  | Inr blob \<Rightarrow>
                      (case derive_filename (resp_headers resp) of
                         Inl e \<Rightarrow> (Throw e, pg, es @ [SetPhase (js ''Downloading'' @ [8230])])
                       | Inr filename \<Rightarrow>
                           (Normal, pg,
                            es @ [SetPhase (js ''Downloading'' @ [8230]),
                                  Download filename blob,
                                  DoneProgress True,
                                  Toast (js ''Proposal downloaded'')])))))"

definition catch_block :: "thrown \<Rightarrow> effect list" where
  "catch_block err =
     (case err of
        Thrown message str \<Rightarrow>
          [DoneProgress False, Alert (js ''Generate failed: '' @ or_else message str)])"

definition finally_block :: "page \<Rightarrow> jsstring \<Rightarrow> page" where
  "finally_block pg oldLabel =
     pg\<lparr>phaseTimer := False, btn_disabled := False, btn_textContent := oldLabel\<rparr>"

text \<open>
  One run of the listener of \<^verbatim>\<open>generateBtn\<close>, lines 104 to 220. \<open>net\<close> is how the one
  \<^verbatim>\<open>fetch\<close> settles, should the listener reach it. The result is the page afterwards and
  the effects in order; a \<open>Fetch\<close> among them is the request on the wire.
\<close>

definition generate_click :: "page \<Rightarrow> fetch_result \<Rightarrow> page \<times> effect list" where
  "generate_click pg net =
     (if \<not> isAuthed pg then
        (pg, [Toast (js ''Please login to generate.''), Navigate (js ''login.html'')])
      else
        (let reqText = value_or (requirementsEl pg) [] in
         if trim reqText = [] then
           (pg, [Alert (js ''Please enter client requirements before generating.'')])
         else
           (let payload = build_payload pg;
                url = js ''/api/generate_proposal'';
                oldLabel = btn_textContent pg;
                pg1 = pg\<lparr>btn_disabled := True, btn_textContent := js ''Generating...'',
                         phaseTimer := True\<rparr>;
                before = [ShowProgress (js ''Preparing content'' @ [8230]),
                          Fetch url (authHeaders pg [(js ''Content-Type'', js ''application/json'')])
                            payload]
            in case try_block pg1 oldLabel net of
                 (Throw err, pg2, es) \<Rightarrow>
                   (finally_block pg2 oldLabel, before @ es @ catch_block err)
               | (c, pg2, es) \<Rightarrow> (finally_block pg2 oldLabel, before @ es))))"

text \<open>The payloads that went on the wire.\<close>

fun dispatched :: "effect list \<Rightarrow> payload list" where
  "dispatched [] = []"
| "dispatched (Fetch url h p # es) = p # dispatched es"
| "dispatched (e # es) = dispatched es"

section \<open>The server (server.js)\<close>

subsection \<open>Requests and replies\<close>

text \<open>
  A reply: the code of \<^verbatim>\<open>res.status\<close> (200 when the handler sets none), the header
  fields that the handler sets, and the body of \<^verbatim>\<open>res.json\<close> or \<^verbatim>\<open>res.send\<close>.
  \<open>Json_error m\<close> is the object \<^verbatim>\<open>{ error: m }\<close>. A JSON value that the handlers pass on
  without looking inside (the request body, a row of the table) is of the type \<open>'j\<close>.
  The fields that Express and the middleware add on their own (\<^verbatim>\<open>Content-Length\<close>,
  \<^verbatim>\<open>ETag\<close>, \<^verbatim>\<open>X-Powered-By\<close>, those of \<^verbatim>\<open>cors\<close>, the content type of \<^verbatim>\<open>res.json\<close>) are
  not part of \<open>reply_headers\<close>.
\<close>

datatype 'j body = Json_error jsstring | Json_null | Json_value 'j | Buffer "nat list"

record 'j reply =
  code :: nat
  reply_headers :: headers
  reply_body :: "'j body"

text \<open>
  The call of node-fetch: \<open>dr_json\<close> is the value that \<^verbatim>\<open>JSON.stringify\<close> makes the body
  of. The downstream is a function from the request to how the call settles: \<open>Inl e\<close> is
  a promise rejected with \<open>e\<close> (the downstream cannot be reached, the transport times
  out), and in a response \<open>ds_buffer = Inl e\<close> is a rejected \<^verbatim>\<open>r.buffer()\<close>.
\<close>

record 'j downstream_request =
  dr_url :: jsstring
  dr_method :: jsstring
  dr_headers :: headers
  dr_json :: 'j

record downstream_response =
  ds_status :: nat
  ds_headers :: headers
  ds_buffer :: "thrown + nat list"

type_synonym 'j downstream = "'j downstream_request \<Rightarrow> thrown + downstream_response"

subsection \<open>What Express does with a header field and a buffer\<close>

text \<open>
  \<^verbatim>\<open>res.set\<close> and \<^verbatim>\<open>res.send\<close> belong to Express, not to the repository; they are
  modelled from Express 4 (\<^verbatim>\<open>lib/response.js\<close>, with the \<^verbatim>\<open>mime\<close> module that it uses),
  as far as they touch the fields that the handler sets and the body.

  \<open>has_charset\<close> is \<^verbatim>\<open>/;\s*charset\s*=/.test(value)\<close>: \<open>charset_at\<close> is a match at the
  head of the string. \<open>charsets_lookup\<close> is \<^verbatim>\<open>mime.charsets.lookup\<close>, which answers
  \<^verbatim>\<open>UTF-8\<close> for the types that
  \<^verbatim>\<open>/^text\/|^application\/(javascript|json)/\<close> matches and nothing for the others.
\<close>

definition charset_at :: "jsstring \<Rightarrow> bool" where
  "charset_at s =
     (case s of
        [] \<Rightarrow> False
      | c # r \<Rightarrow>
          c = 59 \<and>
          (let r1 = dropWhile is_js_space r
           in take 7 r1 = js ''charset'' \<and>
              (case dropWhile is_js_space (drop 7 r1) of [] \<Rightarrow> False | e # r2 \<Rightarrow> e = 61)))"

fun has_charset :: "jsstring \<Rightarrow> bool" where
  "has_charset [] = False"
| "has_charset (c # cs) = (charset_at (c # cs) \<or> has_charset cs)"

definition charsets_lookup :: "jsstring \<Rightarrow> jsstring option" where
  "charsets_lookup mimeType =
     (if take 5 mimeType = js ''text/'' \<or> take 22 mimeType = js ''application/javascript'' \<or>
         take 16 mimeType = js ''application/json''
      then Some (js ''UTF-8'') else None)"

text \<open>\<^verbatim>\<open>setHeader\<close> and \<^verbatim>\<open>removeHeader\<close> of Node: a field has one value, and its name is
  compared without regard to case.\<close>

definition removeHeader :: "headers \<Rightarrow> jsstring \<Rightarrow> headers" where
  "removeHeader hs field = filter (\<lambda>h. map lower (fst h) \<noteq> map lower field) hs"

definition setHeader :: "headers \<Rightarrow> jsstring \<Rightarrow> jsstring \<Rightarrow> headers" where
  "setHeader hs field val = removeHeader hs field @ [(field, val)]"

text \<open>
  \<^verbatim>\<open>res.set(field, val)\<close> with a string: a \<^verbatim>\<open>Content-Type\<close> that names no charset gets
  \<^verbatim>\<open>; charset=utf-8\<close> appended when the type before its first semicolon is one that
  \<open>charsets_lookup\<close> knows; every other field is stored as it is.
\<close>

definition res_set :: "headers \<Rightarrow> jsstring \<Rightarrow> jsstring \<Rightarrow> headers" where
  "res_set hs field val =
     (let value =
            (if map lower field = js ''content-type'' \<and> \<not> has_charset val then
               (case charsets_lookup (takeWhile (\<lambda>c. c \<noteq> 59) val) of
                  Some charset \<Rightarrow> val @ js ''; charset='' @ map lower charset
                | None \<Rightarrow> val)
             else val)
      in setHeader hs field value)"

text \<open>
  \<^verbatim>\<open>res.send(chunk)\<close> with a buffer, in answer to a \<^verbatim>\<open>POST\<close> (so the request is never
  fresh, and the body is written), under the status \<open>statusCode\<close> and the fields \<open>hs\<close>
  set so far. A response without a content type gets the binary one. For the statuses
  204 and 304 the content type is removed and the body is empty; for 205 the body is
  empty.
\<close>

definition res_send :: "nat \<Rightarrow> headers \<Rightarrow> nat list \<Rightarrow> 'j reply" where
  "res_send statusCode hs chunk =
     (let hs1 = (if value_or (headers_get hs (js ''Content-Type'')) [] = []
                 then res_set hs (js ''Content-Type'') (js ''application/octet-stream'')
                 else hs)
      in if statusCode = 204 \<or> statusCode = 304 then
           \<lparr> code = statusCode, reply_headers = removeHeader hs1 (js ''Content-Type''),
             reply_body = Buffer [] \<rparr>
         else if statusCode = 205 then
           \<lparr> code = statusCode, reply_headers = hs1, reply_body = Buffer [] \<rparr>
         else \<lparr> code = statusCode, reply_headers = hs1, reply_body = Buffer chunk \<rparr>)"

subsection \<open>POST /api/generate_proposal\<close>

text \<open>\<^verbatim>\<open>process.env.X || null\<close>: a variable that is not set or is empty counts as none.\<close>

definition env_or_null :: "jsstring option \<Rightarrow> jsstring option" where
  "env_or_null v = (case v of None \<Rightarrow> None | Some u \<Rightarrow> if u \<noteq> [] then Some u else None)"

text \<open>The arguments of \<^verbatim>\<open>fetch\<close> on line 128.\<close>

definition forward_request :: "jsstring \<Rightarrow> 'j \<Rightarrow> 'j downstream_request" where
  "forward_request GENERATE_URL req_body =
     \<lparr> dr_url = GENERATE_URL, dr_method = js ''POST'',
       dr_headers = [(js ''Content-Type'', js ''application/json'')],
       dr_json = req_body \<rparr>"

text \<open>The \<^verbatim>\<open>catch\<close> branch, which logs the error and does not look at it.\<close>

definition proxy_failed :: "thrown \<Rightarrow> 'j reply" where
  "proxy_failed err =
     \<lparr> code = 500, reply_headers = [],
       reply_body = Json_error (js ''Failed to generate proposal'') \<rparr>"

text \<open>
  The handler, lines 121 to 138: the reply and the calls made to the downstream, in
  order. \<open>env_GENERATE_URL\<close> is \<^verbatim>\<open>process.env.GENERATE_URL\<close>, \<open>req_body\<close> is \<^verbatim>\<open>req.body\<close>.
  In the relay branch the reply is what \<^verbatim>\<open>res.set\<close>, \<^verbatim>\<open>res.status\<close> and \<^verbatim>\<open>res.send\<close> make
  of the handler's arguments.
\<close>

definition generate_proposal ::
  "jsstring option \<Rightarrow> 'j \<Rightarrow> 'j downstream \<Rightarrow> 'j reply \<times> 'j downstream_request list" where
  "generate_proposal env_GENERATE_URL req_body fetch =
     (case env_or_null env_GENERATE_URL of
        None \<Rightarrow>
          (\<lparr> code = 501, reply_headers = [],
             reply_body = Json_error
               (js ''No generate endpoint configured on server (set GENERATE_URL in .env)'') \<rparr>,
           [])
      | Some GENERATE_URL \<Rightarrow>
          (let rq = forward_request GENERATE_URL req_body
           in case fetch rq of
                Inl err \<Rightarrow> (proxy_failed err, [rq])
              | Inr r \<Rightarrow>
                  (case ds_buffer r of
                     Inl err \<Rightarrow> (proxy_failed err, [rq])
                   | Inr buffer \<Rightarrow>
                       (let ct = value_or (headers_get (ds_headers r) (js ''content-type''))
                                   (js ''application/octet-stream'');
                            hs1 = res_set [] (js ''Content-Type'') ct;
                            cd = headers_get (ds_headers r) (js ''content-disposition'');
                            hs2 = (case cd of
                                     None \<Rightarrow> hs1
                                   | Some v \<Rightarrow>
                                       if v \<noteq> [] then res_set hs1 (js ''Content-Disposition'') v
                                       else hs1)
                        in (res_send (ds_status r) hs2 buffer, [rq])))))"

subsection \<open>GET /api/service_details\<close>









section \<open>The hardware choice in the words of the specification\<close>

text \<open>The boxes of the provider group, none when the group is not on the page.\<close>

definition providers :: "page \<Rightarrow> hwprov_input list" where
  "providers pg = (case hwprovGroupEl pg of None \<Rightarrow> [] | Some inputs \<Rightarrow> inputs)"

text \<open>The wording of the specification for the hardware choice: the values of the ticked
  boxes as they stand, joined as the script joins them.\<close>

definition comma_joined_checked :: "hwprov_input list \<Rightarrow> jsstring" where
  "comma_joined_checked inputs = join (js '', '') (map input_value (filter checked inputs))"

section \<open>Example inputs\<close>

text \<open>A page with a session token, filled in, and two providers ticked.\<close>

definition demo_page :: page where
  "demo_page =
     \<lparr> access_token = Some (js ''tok''),
       clientNameEl = Some (js ''Acme''),
       industrySelect = Some (js ''other''),
       industryCustomEl = Some (js ''Retail''),
       deploymentEl = Some (js ''onsite''),
       proposalTypeEl = None,
       requirementsEl = Some (js ''Three node cluster''),
       boqTextEl = Some (js ''3 x NX-3060''),
       hwprovGroupEl = Some [\<lparr>checked = True, input_value = js ''Dell''\<rparr>,
                             \<lparr>checked = False, input_value = js ''HPE''\<rparr>,
                             \<lparr>checked = True, input_value = js ''Lenovo''\<rparr>],
       btn_disabled = False,
       btn_textContent = js ''Generate Proposal'',
       phaseTimer = False \<rparr>"

text \<open>A \<^verbatim>\<open>fetch\<close> that rejects, as when the network is down.\<close>

definition failed_to_fetch :: fetch_result where
  "failed_to_fetch = Rejected (Thrown (js ''Failed to fetch'') (js ''TypeError: Failed to fetch''))"

text \<open>The demo page with one ticked box whose value has a space on each side.\<close>

definition padded_page :: page where
  "padded_page = demo_page\<lparr>hwprovGroupEl := Some [\<lparr>checked = True, input_value = js '' Dell ''\<rparr>]\<rparr>"

text \<open>The demo page with the client name left empty.\<close>

definition nameless_page :: page where
  "nameless_page = demo_page\<lparr>clientNameEl := Some []\<rparr>"

text \<open>The demo page with requirements made of white space only: a space, a tab, a line feed,
  a no-break space and an ideographic space.\<close>

definition blank_page :: page where
  "blank_page = demo_page\<lparr>requirementsEl := Some (js '' '' @ [9, 10, 160, 12288])\<rparr>"

text \<open>The demo page of a client that holds no token.\<close>

definition logged_out_page :: page where
  "logged_out_page = demo_page\<lparr>access_token := None\<rparr>"

text \<open>The page of a client that holds no token and has typed white space only.\<close>

definition logged_out_blank_page :: page where
  "logged_out_blank_page = blank_page\<lparr>access_token := None\<rparr>"

text \<open>A document from the server, with its name in the header.\<close>

definition docx_response :: response where
  \<open>docx_response =
     \<lparr> status = 200,
       resp_headers =
         [(js ''content-type'',
           js ''application/vnd.openxmlformats-officedocument.wordprocessingml.document''),
          (js ''content-disposition'', js ''attachment; filename="Proposal_X.docx"'')],
       text_result = None,
       blob_result = Inr [80, 75, 3, 4] \<rparr>\<close>

text \<open>The same document with no header at all.\<close>

definition bare_response :: response where
  "bare_response = docx_response\<lparr>resp_headers := []\<rparr>"

text \<open>The answer to an expired session.\<close>

definition expired_response :: response where
  "expired_response =
     \<lparr> status = 401, resp_headers = [], text_result = Some (js ''Unauthorized''),
       blob_result = Inr [] \<rparr>"

text \<open>The answer of a proxy whose downstream failed.\<close>

definition error_response :: response where
  "error_response =
     \<lparr> status = 500, resp_headers = [(js ''content-type'', js ''application/json'')],
       text_result = Some (js ''Failed to generate proposal''), blob_result = Inr [] \<rparr>"

text \<open>A configured downstream.\<close>

definition generator_url :: jsstring where
  "generator_url = js ''http://localhost:8000/api/generate_proposal''"

text \<open>A downstream that refuses the connection.\<close>

definition unreachable :: "'j downstream" where
  "unreachable rq =
     Inl (Thrown (js ''connect ECONNREFUSED 127.0.0.1:8000'')
            (js ''FetchError: connect ECONNREFUSED 127.0.0.1:8000''))"

text \<open>What a working generator answers: a document with its type and its name.\<close>

definition generator_reply :: downstream_response where
  \<open>generator_reply =
     \<lparr> ds_status = 200,
       ds_headers =
         [(js ''content-type'',
           js ''application/vnd.openxmlformats-officedocument.wordprocessingml.document''),
          (js ''content-disposition'', js ''attachment; filename="Proposal_X.docx"'')],
       ds_buffer = Inr [80, 75, 3, 4] \<rparr>\<close>

text \<open>A downstream that answers every call with that document.\<close>

definition generator :: "'j downstream" where
  "generator rq = Inr generator_reply"




text \<open>A document whose body breaks off while it is read.\<close>

definition failing_body :: downstream_response where
  "failing_body = generator_reply\<lparr>ds_buffer :=
     Inl (Thrown (js ''Premature close'') (js ''FetchError: Premature close''))\<rparr>"

text \<open>A downstream that answers every call so.\<close>

definition cut_off_generator :: "'j downstream" where
  "cut_off_generator rq = Inr failing_body"





section \<open>Properties of the strings\<close>

lemma dropWhile_all_iff: "(\<forall>x\<in>set (dropWhile P xs). P x) \<longleftrightarrow> (\<forall>x\<in>set xs. P x)"
proof
  assume h: "\<forall>x\<in>set (dropWhile P xs). P x"
  have "set xs = set (takeWhile P xs) \<union> set (dropWhile P xs)"
    by (metis set_append takeWhile_dropWhile_id)
  with h show "\<forall>x\<in>set xs. P x"
    by (auto dest: set_takeWhileD)
next
  assume "\<forall>x\<in>set xs. P x"
  then show "\<forall>x\<in>set (dropWhile P xs). P x"
    by (auto dest: set_dropWhileD)
qed

text \<open>\<^verbatim>\<open>!s.trim()\<close> holds exactly of the strings made of white space only, the empty one
  among them.\<close>

lemma trim_empty_iff: "trim s = [] \<longleftrightarrow> (\<forall>c\<in>set s. is_js_space c)"
  by (simp add: trim_def dropWhile_eq_Nil_conv dropWhile_all_iff)


section \<open>Properties of the click listener\<close>

subsection \<open>What goes on the wire\<close>

lemma dispatched_append: "dispatched (xs @ ys) = dispatched xs @ dispatched ys"
  by (induction xs rule: dispatched.induct) simp_all

lemma dispatched_try_block: "dispatched (snd (snd (try_block pg l net))) = []"
  by (auto simp: try_block_def handle401_def dispatched_append split: fetch_result.splits sum.splits)

lemma dispatched_catch_block: "dispatched (catch_block e) = []"
  by (cases e) (simp add: catch_block_def)

text \<open>The listener sends one request, with the payload built from the page, when the
  client holds a token and the requirements are not blank, and none otherwise.\<close>

lemma dispatched_generate_click:
  "dispatched (snd (generate_click pg net)) =
     (if isAuthed pg \<and> trim (value_or (requirementsEl pg) []) \<noteq> [] then [build_payload pg] else [])"
proof -
  obtain c pg2 es where t: "try_block
        (pg\<lparr>btn_disabled := True, btn_textContent := js ''Generating...'', phaseTimer := True\<rparr>)
        (btn_textContent pg) net = (c, pg2, es)"
    by (metis prod_cases3)
  then have "dispatched es = []"
    using dispatched_try_block
      [of "pg\<lparr>btn_disabled := True, btn_textContent := js ''Generating...'', phaseTimer := True\<rparr>"
          "btn_textContent pg" net]
    by simp
  with t show ?thesis
    by (cases c) (simp_all add: generate_click_def Let_def dispatched_append dispatched_catch_block)
qed

lemma demo_page_authed: "isAuthed demo_page"
  by (simp add: isAuthed_def getToken_def demo_page_def value_or_def or_else_def js_def)

lemma demo_page_requirements: "trim (value_or (requirementsEl demo_page) []) \<noteq> []"
  by (simp add: demo_page_def value_or_def or_else_def js_def trim_def is_js_space_def)

lemma demo_page_dispatched:
  "dispatched (snd (generate_click demo_page net)) = [build_payload demo_page]"
  using demo_page_authed demo_page_requirements by (simp add: dispatched_generate_click)

text \<open>So does every page that has the token and the requirements of the demo page.\<close>

lemma dispatched_like_demo:
  assumes "access_token pg = access_token demo_page"
    and "requirementsEl pg = requirementsEl demo_page"
  shows "dispatched (snd (generate_click pg net)) = [build_payload pg]"
proof -
  from assms(1) have "isAuthed pg"
    using demo_page_authed by (simp add: isAuthed_def getToken_def)
  moreover from assms(2) have "trim (value_or (requirementsEl pg) []) \<noteq> []"
    using demo_page_requirements by simp
  ultimately show ?thesis by (simp add: dispatched_generate_click)
qed

text \<open>
  C2. Whatever request the listener sends, its \<open>deployment_type\<close> is \<^verbatim>\<open>on-premise\<close> when
  the deployment control reads \<^verbatim>\<open>onsite\<close>, \<^verbatim>\<open>dark-site\<close> when it reads \<^verbatim>\<open>dark_site\<close>, the
  label itself for every other label that is not empty, and \<^verbatim>\<open>hybrid\<close> when the label is
  empty (or the control is not on the page).
\<close>

theorem deployment_type_on_the_wire:
  assumes "p \<in> set (dispatched (snd (generate_click pg net)))"
  shows "(deploymentEl pg = Some (js ''onsite'') \<longrightarrow> deployment_type p = js ''on-premise'') \<and>
         (deploymentEl pg = Some (js ''dark_site'') \<longrightarrow> deployment_type p = js ''dark-site'') \<and>
         (\<forall>label. deploymentEl pg = Some label \<and> label \<noteq> js ''onsite'' \<and>
                   label \<noteq> js ''dark_site'' \<and> label \<noteq> [] \<longrightarrow> deployment_type p = label) \<and>
         (deploymentEl pg = Some [] \<or> deploymentEl pg = None \<longrightarrow> deployment_type p = js ''hybrid'')"
proof -
  from assms have p: "p = build_payload pg"
    by (simp add: dispatched_generate_click split: if_splits)
  have ne: "js ''onsite'' \<noteq> []" "js ''dark_site'' \<noteq> []" "js ''dark_site'' \<noteq> js ''onsite''"
    by (simp_all add: js_def)
  show ?thesis
    unfolding p using ne
    by (auto simp: build_payload_def Let_def apiDeployment_def value_or_def or_else_def)
qed

theorem deployment_type_on_the_wire_witness:
  "build_payload demo_page \<in> set (dispatched (snd (generate_click demo_page failed_to_fetch))) \<and>
   deploymentEl demo_page = Some (js ''onsite'') \<and>
   deployment_type (build_payload demo_page) = js ''on-premise'' \<and>
   deployment_type (build_payload (demo_page\<lparr>deploymentEl := Some (js ''dark_site'')\<rparr>)) =
     js ''dark-site'' \<and>
   deployment_type (build_payload (demo_page\<lparr>deploymentEl := Some (js ''remote'')\<rparr>)) =
     js ''remote'' \<and>
   deployment_type (build_payload (demo_page\<lparr>deploymentEl := Some []\<rparr>)) = js ''hybrid'' \<and>
   deployment_type (build_payload (demo_page\<lparr>deploymentEl := None\<rparr>)) = js ''hybrid''"
proof -
  have m: "build_payload (demo_page\<lparr>deploymentEl := d\<rparr>)
      \<in> set (dispatched (snd (generate_click (demo_page\<lparr>deploymentEl := d\<rparr>) failed_to_fetch)))" for d
    by (simp add: dispatched_like_demo)
  have m0: "build_payload demo_page \<in> set (dispatched (snd (generate_click demo_page failed_to_fetch)))"
    by (simp add: demo_page_dispatched)
  have d: "deploymentEl demo_page = Some (js ''onsite'')"
    by (simp add: demo_page_def)
  have ne: "js ''remote'' \<noteq> js ''onsite''" "js ''remote'' \<noteq> js ''dark_site''" "js ''remote'' \<noteq> []"
    by (simp_all add: js_def)
  show ?thesis
    using m0 d ne
      deployment_type_on_the_wire [OF m0]
      deployment_type_on_the_wire [OF m [of "Some (js ''dark_site'')"]]
      deployment_type_on_the_wire [OF m [of "Some (js ''remote'')"]]
      deployment_type_on_the_wire [OF m [of "Some []"]]
      deployment_type_on_the_wire [OF m [of None]]
    by simp
qed

subsection \<open>The hardware choice\<close>

lemma join_nonempty: "vals \<noteq> [] \<Longrightarrow> \<forall>v\<in>set vals. v \<noteq> [] \<Longrightarrow> join sep vals \<noteq> []"
  by (induction sep vals rule: join.induct) simp_all

lemma hardware_choice_build_payload:
  "hardware_choice (build_payload pg) =
     (let vals = filter (\<lambda>v. v \<noteq> []) (map (\<lambda>i. trim (input_value i)) (filter checked (providers pg)))
      in if vals = [] then js ''Nutanix'' else join (js '', '') vals)"
proof (cases "hwprovGroupEl pg")
  case None
  then show ?thesis
    by (simp add: build_payload_def Let_def getSelectedHardwareProviders_def or_else_def providers_def)
next
  case (Some inputs)
  let ?vals = "filter (\<lambda>v. v \<noteq> []) (map (\<lambda>i. trim (input_value i)) (filter checked inputs))"
  have "?vals \<noteq> [] \<Longrightarrow> join (js '', '') ?vals \<noteq> []"
    by (rule join_nonempty) simp_all
  with Some show ?thesis
    by (auto simp: build_payload_def Let_def getSelectedHardwareProviders_def or_else_def providers_def)
qed

lemma trimmed_values_kept:
  "\<forall>i\<in>set cs. trim (input_value i) = input_value i \<and> input_value i \<noteq> [] \<Longrightarrow>
   filter (\<lambda>v. v \<noteq> []) (map (\<lambda>i. trim (input_value i)) cs) = map input_value cs"
  by (induction cs) simp_all

text \<open>
  C3, as amended. Whatever request the listener sends, its \<open>hardware_choice\<close> is made of
  the values of the ticked boxes, each trimmed of surrounding white space and the blank
  ones dropped, joined by a comma and a space; it is \<^verbatim>\<open>Nutanix\<close> when that list is empty,
  so when no box is ticked; when every ticked value is free of surrounding white space
  and not blank it is the ticked values joined as they stand; and it is never empty.
\<close>

theorem hardware_choice_on_the_wire:
  assumes "p \<in> set (dispatched (snd (generate_click pg net)))"
  shows "hardware_choice p =
           (let vals = filter (\<lambda>v. v \<noteq> [])
                         (map (\<lambda>i. trim (input_value i)) (filter checked (providers pg)))
            in if vals = [] then js ''Nutanix'' else join (js '', '') vals) \<and>
         ((\<forall>i\<in>set (providers pg). \<not> checked i) \<longrightarrow> hardware_choice p = js ''Nutanix'') \<and>
         ((\<exists>i\<in>set (providers pg). checked i) \<and>
          (\<forall>i\<in>set (providers pg). checked i \<longrightarrow>
              trim (input_value i) = input_value i \<and> input_value i \<noteq> []) \<longrightarrow>
            hardware_choice p = comma_joined_checked (providers pg)) \<and>
         hardware_choice p \<noteq> []"
proof -
  from assms have p: "p = build_payload pg"
    by (simp add: dispatched_generate_click split: if_splits)
  let ?cs = "filter checked (providers pg)"
  let ?vals = "filter (\<lambda>v. v \<noteq> []) (map (\<lambda>i. trim (input_value i)) ?cs)"
  have h: "hardware_choice p = (if ?vals = [] then js ''Nutanix'' else join (js '', '') ?vals)"
    unfolding p by (simp add: hardware_choice_build_payload Let_def)
  have none: "(\<forall>i\<in>set (providers pg). \<not> checked i) \<Longrightarrow> hardware_choice p = js ''Nutanix''"
  proof -
    assume "\<forall>i\<in>set (providers pg). \<not> checked i"
    then have "?cs = []" by (simp add: filter_empty_conv)
    with h show ?thesis by simp
  qed
  have some: "hardware_choice p = comma_joined_checked (providers pg)"
    if a: "\<exists>i\<in>set (providers pg). checked i"
      and b: "\<forall>i\<in>set (providers pg). checked i \<longrightarrow>
                trim (input_value i) = input_value i \<and> input_value i \<noteq> []"
  proof -
    from b have "\<forall>i\<in>set ?cs. trim (input_value i) = input_value i \<and> input_value i \<noteq> []"
      by simp
    then have v: "?vals = map input_value ?cs"
      by (rule trimmed_values_kept)
    from a have "?cs \<noteq> []" by (simp add: filter_empty_conv)
    with v h show ?thesis by (simp add: comma_joined_checked_def)
  qed
  have ne: "hardware_choice p \<noteq> []"
  proof (cases "?vals = []")
    case True
    with h show ?thesis by (simp add: js_def)
  next
    case False
    then have "join (js '', '') ?vals \<noteq> []"
      by (rule join_nonempty) simp
    with h False show ?thesis by simp
  qed
  from h none some ne show ?thesis by (simp add: Let_def)
qed

lemma padded_page_dispatched:
  "dispatched (snd (generate_click padded_page net)) = [build_payload padded_page]"
proof -
  have "isAuthed padded_page"
    using demo_page_authed by (simp add: padded_page_def isAuthed_def getToken_def)
  moreover have "trim (value_or (requirementsEl padded_page) []) \<noteq> []"
    using demo_page_requirements by (simp add: padded_page_def)
  ultimately show ?thesis by (simp add: dispatched_generate_click)
qed

text \<open>
  C3, as stated, fails: a ticked box whose value is \<^verbatim>\<open>" Dell "\<close> goes on the wire as
  \<^verbatim>\<open>"Dell"\<close>, which is not the ticked value.
\<close>

theorem hardware_choice_counterexample:
  "dispatched (snd (generate_click padded_page failed_to_fetch)) = [build_payload padded_page] \<and>
   providers padded_page = [\<lparr>checked = True, input_value = js '' Dell ''\<rparr>] \<and>
   hardware_choice (build_payload padded_page) = js ''Dell'' \<and>
   comma_joined_checked (providers padded_page) = js '' Dell '' \<and>
   hardware_choice (build_payload padded_page) \<noteq> comma_joined_checked (providers padded_page)"
proof -
  have a: "providers padded_page = [\<lparr>checked = True, input_value = js '' Dell ''\<rparr>]"
    by (simp add: providers_def padded_page_def)
  have b: "hardware_choice (build_payload padded_page) = js ''Dell''"
    by (simp add: hardware_choice_build_payload a Let_def trim_def is_js_space_def js_def)
  have c: "comma_joined_checked (providers padded_page) = js '' Dell ''"
    by (simp add: a comma_joined_checked_def)
  have d: "js ''Dell'' \<noteq> js '' Dell ''"
    by (simp add: js_def)
  from a b c d padded_page_dispatched show ?thesis by simp
qed

theorem hardware_choice_on_the_wire_witness:
  "build_payload demo_page \<in> set (dispatched (snd (generate_click demo_page failed_to_fetch))) \<and>
   hardware_choice (build_payload demo_page) = js ''Dell, Lenovo'' \<and>
   hardware_choice (build_payload demo_page) = comma_joined_checked (providers demo_page) \<and>
   hardware_choice (build_payload (demo_page\<lparr>hwprovGroupEl := Some []\<rparr>)) = js ''Nutanix'' \<and>
   hardware_choice (build_payload (demo_page\<lparr>hwprovGroupEl := None\<rparr>)) = js ''Nutanix''"
proof -
  have m: "build_payload demo_page \<in> set (dispatched (snd (generate_click demo_page failed_to_fetch)))"
    by (simp add: demo_page_dispatched)
  have pr: "providers demo_page = [\<lparr>checked = True, input_value = js ''Dell''\<rparr>,
                             \<lparr>checked = False, input_value = js ''HPE''\<rparr>,
                             \<lparr>checked = True, input_value = js ''Lenovo''\<rparr>]"
    by (simp add: providers_def demo_page_def)
  have j: "comma_joined_checked (providers demo_page) = js ''Dell, Lenovo''"
    by (simp add: pr comma_joined_checked_def js_def)
  have e: "\<exists>i\<in>set (providers demo_page). checked i"
    by (simp add: pr)
  have t: "\<forall>i\<in>set (providers demo_page). checked i \<longrightarrow>
              trim (input_value i) = input_value i \<and> input_value i \<noteq> []"
    by (simp add: pr trim_def is_js_space_def js_def)
  have 1: "hardware_choice (build_payload demo_page) = comma_joined_checked (providers demo_page)"
    using hardware_choice_on_the_wire [OF m] e t by blast
  have m': "build_payload (demo_page\<lparr>hwprovGroupEl := g\<rparr>)
      \<in> set (dispatched (snd (generate_click (demo_page\<lparr>hwprovGroupEl := g\<rparr>) failed_to_fetch)))" for g
    by (simp add: dispatched_like_demo)
  have p': "providers (demo_page\<lparr>hwprovGroupEl := Some []\<rparr>) = []"
      "providers (demo_page\<lparr>hwprovGroupEl := None\<rparr>) = []"
    by (simp_all add: providers_def)
  have 2: "hardware_choice (build_payload (demo_page\<lparr>hwprovGroupEl := Some []\<rparr>)) = js ''Nutanix''"
    using hardware_choice_on_the_wire [OF m' [of "Some []"]] p' by simp
  have 3: "hardware_choice (build_payload (demo_page\<lparr>hwprovGroupEl := None\<rparr>)) = js ''Nutanix''"
    using hardware_choice_on_the_wire [OF m' [of None]] p' by simp
  from 1 2 3 j m show ?thesis by simp
qed

subsection \<open>The alias fields and the client name\<close>

text \<open>
  C9. In whatever request the listener sends, \<open>requirements_text\<close> equals
  \<open>client_requirements\<close> and \<open>client_boq\<close> equals \<open>boq_text\<close>: each pair carries the text
  of its control.
\<close>

theorem alias_fields_agree:
  assumes "p \<in> set (dispatched (snd (generate_click pg net)))"
  shows "requirements_text p = client_requirements p \<and> client_boq p = boq_text p \<and>
         requirements_text p = value_or (requirementsEl pg) [] \<and>
         client_boq p = value_or (boqTextEl pg) []"
proof -
  from assms have "p = build_payload pg"
    by (simp add: dispatched_generate_click split: if_splits)
  then show ?thesis
    by (simp add: build_payload_def Let_def)
qed

theorem alias_fields_agree_witness:
  "build_payload demo_page \<in> set (dispatched (snd (generate_click demo_page failed_to_fetch))) \<and>
   requirements_text (build_payload demo_page) = js ''Three node cluster'' \<and>
   client_requirements (build_payload demo_page) = js ''Three node cluster'' \<and>
   client_boq (build_payload demo_page) = js ''3 x NX-3060'' \<and>
   boq_text (build_payload demo_page) = js ''3 x NX-3060''"
proof -
  have m: "build_payload demo_page \<in> set (dispatched (snd (generate_click demo_page failed_to_fetch)))"
    by (simp add: demo_page_dispatched)
  have r: "value_or (requirementsEl demo_page) [] = js ''Three node cluster''"
    by (simp add: demo_page_def value_or_def or_else_def js_def)
  have b: "value_or (boqTextEl demo_page) [] = js ''3 x NX-3060''"
    by (simp add: demo_page_def value_or_def or_else_def js_def)
  from alias_fields_agree [OF m] r b m show ?thesis by metis
qed

text \<open>
  C10. When the client-name control is not on the page, or its value is the empty string,
  the \<open>customer_name\<close> of whatever request the listener sends is \<^verbatim>\<open>Client\<close>.
\<close>

theorem customer_name_default:
  assumes "p \<in> set (dispatched (snd (generate_click pg net)))"
    and "clientNameEl pg = None \<or> clientNameEl pg = Some []"
  shows "customer_name p = js ''Client''"
proof -
  from assms(1) have "p = build_payload pg"
    by (simp add: dispatched_generate_click split: if_splits)
  with assms(2) show ?thesis
    by (auto simp: build_payload_def Let_def value_or_def or_else_def)
qed

theorem customer_name_default_witness:
  "build_payload nameless_page \<in> set (dispatched (snd (generate_click nameless_page failed_to_fetch))) \<and>
   clientNameEl nameless_page = Some [] \<and>
   customer_name (build_payload nameless_page) = js ''Client'' \<and>
   customer_name (build_payload (demo_page\<lparr>clientNameEl := None\<rparr>)) = js ''Client''"
proof -
  have m: "build_payload nameless_page \<in> set (dispatched (snd (generate_click nameless_page failed_to_fetch)))"
    by (simp add: nameless_page_def dispatched_like_demo)
  have n: "clientNameEl nameless_page = Some []"
    by (simp add: nameless_page_def)
  have m': "build_payload (demo_page\<lparr>clientNameEl := None\<rparr>)
      \<in> set (dispatched (snd (generate_click (demo_page\<lparr>clientNameEl := None\<rparr>) failed_to_fetch)))"
    by (simp add: dispatched_like_demo)
  show ?thesis
    using m n customer_name_default [OF m] customer_name_default [OF m']
    by simp
qed

subsection \<open>The guards\<close>

lemma isAuthed_iff: "isAuthed pg \<longleftrightarrow> \<not> (access_token pg = None \<or> access_token pg = Some [])"
  by (auto simp: isAuthed_def getToken_def value_or_def or_else_def split: option.splits)

lemma blank_requirements_iff:
  "trim (value_or (requirementsEl pg) []) = [] \<longleftrightarrow>
     (case requirementsEl pg of None \<Rightarrow> True | Some t \<Rightarrow> \<forall>c\<in>set t. is_js_space c)"
  by (auto simp: trim_empty_iff value_or_def or_else_def split: option.splits)

text \<open>
  C4, as amended. When the requirements text is empty or made of white space only (or its
  control is not on the page), or the client holds no session token, the listener sends
  no request and leaves the page as it was. A client without a token gets the login
  notice and is sent to \<^verbatim>\<open>login.html\<close>, and nothing else happens, whatever the
  requirements are: that guard comes first. A client with a token and blank requirements
  gets the validation prompt, and nothing else happens.
\<close>

theorem no_request_when_blank_or_unauthenticated:
  assumes "(case requirementsEl pg of None \<Rightarrow> True | Some t \<Rightarrow> \<forall>c\<in>set t. is_js_space c) \<or>
           access_token pg = None \<or> access_token pg = Some []"
  shows "(\<forall>url h p. Fetch url h p \<notin> set (snd (generate_click pg net))) \<and>
         dispatched (snd (generate_click pg net)) = [] \<and>
         fst (generate_click pg net) = pg \<and>
         (access_token pg = None \<or> access_token pg = Some [] \<longrightarrow>
            snd (generate_click pg net) =
              [Toast (js ''Please login to generate.''), Navigate (js ''login.html'')]) \<and>
         (\<not> (access_token pg = None \<or> access_token pg = Some []) \<longrightarrow>
            snd (generate_click pg net) =
              [Alert (js ''Please enter client requirements before generating.'')])"
proof (cases "isAuthed pg")
  case False
  then have "generate_click pg net =
      (pg, [Toast (js ''Please login to generate.''), Navigate (js ''login.html'')])"
    by (simp add: generate_click_def)
  with False show ?thesis
    by (simp add: isAuthed_iff)
next
  case True
  with assms have "trim (value_or (requirementsEl pg) []) = []"
    unfolding blank_requirements_iff isAuthed_iff by blast
  with True have "generate_click pg net =
      (pg, [Alert (js ''Please enter client requirements before generating.'')])"
    by (simp add: generate_click_def)
  with True show ?thesis
    by (simp add: isAuthed_iff)
qed

theorem no_request_when_blank_or_unauthenticated_witness:
  "list_all is_js_space (js '' '' @ [9, 10, 160, 12288]) \<and>
   requirementsEl blank_page = Some (js '' '' @ [9, 10, 160, 12288]) \<and>
   generate_click blank_page (Resolved docx_response) =
     (blank_page, [Alert (js ''Please enter client requirements before generating.'')]) \<and>
   access_token logged_out_page = None \<and>
   generate_click logged_out_page (Resolved docx_response) =
     (logged_out_page, [Toast (js ''Please login to generate.''), Navigate (js ''login.html'')])"
proof -
  have r: "requirementsEl blank_page = Some (js '' '' @ [9, 10, 160, 12288])"
    by (simp add: blank_page_def)
  have s: "\<forall>c\<in>set (js '' '' @ [9, 10, 160, 12288]). is_js_space c"
    by (simp add: js_def is_js_space_def)
  have t: "\<not> (access_token blank_page = None \<or> access_token blank_page = Some [])"
    by (simp add: blank_page_def demo_page_def js_def)
  have a: "(case requirementsEl blank_page of None \<Rightarrow> True | Some t \<Rightarrow> \<forall>c\<in>set t. is_js_space c) \<or>
           access_token blank_page = None \<or> access_token blank_page = Some []"
    using r s by simp
  have n: "access_token logged_out_page = None"
    by (simp add: logged_out_page_def)
  then have b: "(case requirementsEl logged_out_page of None \<Rightarrow> True
                 | Some t \<Rightarrow> \<forall>c\<in>set t. is_js_space c) \<or>
           access_token logged_out_page = None \<or> access_token logged_out_page = Some []"
    by simp
  have 1: "generate_click blank_page (Resolved docx_response) =
     (blank_page, [Alert (js ''Please enter client requirements before generating.'')])"
    using no_request_when_blank_or_unauthenticated [OF a, of "Resolved docx_response"] t
    by (simp add: prod_eq_iff)
  have 2: "generate_click logged_out_page (Resolved docx_response) =
     (logged_out_page, [Toast (js ''Please login to generate.''), Navigate (js ''login.html'')])"
    using no_request_when_blank_or_unauthenticated [OF b, of "Resolved docx_response"] n
    by (simp add: prod_eq_iff)
  from s have "list_all is_js_space (js '' '' @ [9, 10, 160, 12288])"
    by (simp add: list_all_iff)
  with r n 1 2 show ?thesis by simp
qed

text \<open>
  C4, as stated, fails where both guards apply: a client with no token and blank
  requirements is sent to the login page and sees no validation prompt.
\<close>

theorem validation_prompt_counterexample:
  "requirementsEl logged_out_blank_page = Some (js '' '' @ [9, 10, 160, 12288]) \<and>
   list_all is_js_space (js '' '' @ [9, 10, 160, 12288]) \<and>
   access_token logged_out_blank_page = None \<and>
   generate_click logged_out_blank_page failed_to_fetch =
     (logged_out_blank_page,
      [Toast (js ''Please login to generate.''), Navigate (js ''login.html'')]) \<and>
   Alert (js ''Please enter client requirements before generating.'')
     \<notin> set (snd (generate_click logged_out_blank_page failed_to_fetch))"
proof -
  have r: "requirementsEl logged_out_blank_page = Some (js '' '' @ [9, 10, 160, 12288])"
    by (simp add: logged_out_blank_page_def blank_page_def)
  have s: "list_all is_js_space (js '' '' @ [9, 10, 160, 12288])"
    by (simp add: js_def is_js_space_def)
  have n: "access_token logged_out_blank_page = None"
    by (simp add: logged_out_blank_page_def)
  then have "\<not> isAuthed logged_out_blank_page"
    by (simp add: isAuthed_def getToken_def value_or_def)
  then have g: "generate_click logged_out_blank_page failed_to_fetch =
     (logged_out_blank_page,
      [Toast (js ''Please login to generate.''), Navigate (js ''login.html'')])"
    by (simp add: generate_click_def)
  from r s n g show ?thesis by simp
qed

subsection \<open>After the request has settled\<close>

lemma generate_click_page:
  assumes "isAuthed pg" and "trim (value_or (requirementsEl pg) []) \<noteq> []"
  shows "\<exists>pg2. fst (generate_click pg net) = finally_block pg2 (btn_textContent pg)"
proof -
  obtain c pg2 es where t: "try_block
        (pg\<lparr>btn_disabled := True, btn_textContent := js ''Generating...'', phaseTimer := True\<rparr>)
        (btn_textContent pg) net = (c, pg2, es)"
    by (metis prod_cases3)
  with assms have "fst (generate_click pg net) = finally_block pg2 (btn_textContent pg)"
    by (cases c) (simp_all add: generate_click_def Let_def)
  then show ?thesis ..
qed

text \<open>
  C8. However the request that the listener sent settles (a document, a status that is
  not a success, 401 among them, or a rejection or any other exception), the listener
  ends with the phase timer cleared, the button enabled again and the label of the
  button as it was before the click.
\<close>

theorem control_restored_when_request_settles:
  assumes "dispatched (snd (generate_click pg net)) \<noteq> []"
  shows "\<not> phaseTimer (fst (generate_click pg net)) \<and>
         \<not> btn_disabled (fst (generate_click pg net)) \<and>
         btn_textContent (fst (generate_click pg net)) = btn_textContent pg"
proof -
  from assms have "isAuthed pg" and "trim (value_or (requirementsEl pg) []) \<noteq> []"
    by (simp_all add: dispatched_generate_click split: if_splits)
  then obtain pg2 where "fst (generate_click pg net) = finally_block pg2 (btn_textContent pg)"
    using generate_click_page by blast
  then show ?thesis
    by (simp add: finally_block_def)
qed

theorem control_restored_when_request_settles_witness:
  "dispatched (snd (generate_click demo_page (Resolved docx_response))) \<noteq> [] \<and>
   btn_textContent (fst (generate_click demo_page (Resolved docx_response))) = js ''Generate Proposal'' \<and>
   btn_disabled (fst (generate_click demo_page (Resolved docx_response))) = False \<and>
   phaseTimer (fst (generate_click demo_page (Resolved docx_response))) = False \<and>
   dispatched (snd (generate_click demo_page (Resolved expired_response))) \<noteq> [] \<and>
   btn_textContent (fst (generate_click demo_page (Resolved expired_response))) = js ''Generate Proposal'' \<and>
   btn_disabled (fst (generate_click demo_page (Resolved expired_response))) = False \<and>
   phaseTimer (fst (generate_click demo_page (Resolved expired_response))) = False \<and>
   dispatched (snd (generate_click demo_page (Resolved error_response))) \<noteq> [] \<and>
   btn_textContent (fst (generate_click demo_page (Resolved error_response))) = js ''Generate Proposal'' \<and>
   btn_disabled (fst (generate_click demo_page (Resolved error_response))) = False \<and>
   phaseTimer (fst (generate_click demo_page (Resolved error_response))) = False \<and>
   dispatched (snd (generate_click demo_page failed_to_fetch)) \<noteq> [] \<and>
   btn_textContent (fst (generate_click demo_page failed_to_fetch)) = js ''Generate Proposal'' \<and>
   btn_disabled (fst (generate_click demo_page failed_to_fetch)) = False \<and>
   phaseTimer (fst (generate_click demo_page failed_to_fetch)) = False"
proof -
  have d: "dispatched (snd (generate_click demo_page net)) \<noteq> []" for net
    by (simp add: demo_page_dispatched)
  have l: "btn_textContent demo_page = js ''Generate Proposal''"
    by (simp add: demo_page_def)
  show ?thesis
    using d l
      control_restored_when_request_settles [OF d [of "Resolved docx_response"]]
      control_restored_when_request_settles [OF d [of "Resolved expired_response"]]
      control_restored_when_request_settles [OF d [of "Resolved error_response"]]
      control_restored_when_request_settles [OF d [of failed_to_fetch]]
    by simp
qed

subsection \<open>The file name of the download\<close>

text \<open>A string without a percent sign decodes to itself.\<close>

lemma decodeURIComponent_plain: "37 \<notin> set s \<Longrightarrow> decodeURIComponent s = Some s"
  by (induction s) simp_all

lemma headers_get_content_disposition:
  "headers_get hs (js ''Content-Disposition'') = headers_get hs (js ''content-disposition'')"
  by (simp add: headers_get_def js_def lower_def)

lemma match_filename_quoted:
  \<open>match_filename (js ''attachment; filename="Proposal_X.docx"'') = Some (js ''"Proposal_X.docx"'')\<close>
  by (simp add: js_def match_at_def after_eq_def lower_def)

lemma strip_utf8_prefix_quoted:
  \<open>strip_utf8_prefix (js ''"Proposal_X.docx"'') = js ''"Proposal_X.docx"''\<close>
  by (simp add: js_def lower_def)

lemma strip_quotes_quoted:
  \<open>strip_quotes (js ''"Proposal_X.docx"'') = js ''Proposal_X.docx''\<close>
  by (simp add: js_def strip_quotes_def)

lemma decodeURIComponent_name:
  "decodeURIComponent (js ''Proposal_X.docx'') = Some (js ''Proposal_X.docx'')"
  by (rule decodeURIComponent_plain) (simp add: js_def)

lemma derive_filename_quoted:
  assumes \<open>headers_get hs (js ''Content-Disposition'') =
             Some (js ''attachment; filename="Proposal_X.docx"'')\<close>
  shows "derive_filename hs = Inr (js ''Proposal_X.docx'')"
proof -
  have ne: \<open>js ''attachment; filename="Proposal_X.docx"'' \<noteq> []\<close> \<open>js ''"Proposal_X.docx"'' \<noteq> []\<close>
    by (simp_all add: js_def)
  from assms ne show ?thesis
    by (simp add: derive_filename_def Let_def value_or_def or_else_def match_filename_quoted
        strip_utf8_prefix_quoted strip_quotes_quoted decodeURIComponent_name)
qed

lemma derive_filename_absent:
  assumes "headers_get hs (js ''Content-Disposition'') = None"
  shows "derive_filename hs = Inr (js ''proposal.docx'')"
proof -
  from assms have "headers_get hs (js ''content-disposition'') = None"
    by (simp add: headers_get_content_disposition)
  with assms show ?thesis
    by (simp add: derive_filename_def Let_def value_or_def)
qed

lemma generate_click_download:
  assumes "dispatched (snd (generate_click pg (Resolved resp))) \<noteq> []"
    and "resp_ok resp" and "blob_result resp = Inr blob"
    and "derive_filename (resp_headers resp) = Inr filename"
  shows "snd (generate_click pg (Resolved resp)) =
           [ShowProgress (js ''Preparing content'' @ [8230]),
            Fetch (js ''/api/generate_proposal'')
              (authHeaders pg [(js ''Content-Type'', js ''application/json'')]) (build_payload pg),
            SetPhase (js ''Downloading'' @ [8230]),
            Download filename blob,
            DoneProgress True,
            Toast (js ''Proposal downloaded'')]"
proof -
  from assms(1) have "isAuthed pg" and "trim (value_or (requirementsEl pg) []) \<noteq> []"
    by (simp_all add: dispatched_generate_click split: if_splits)
  moreover from assms(2) have "status resp \<noteq> 401"
    by (auto simp: resp_ok_def)
  ultimately show ?thesis
    using assms(2-4)
    by (simp add: generate_click_def Let_def try_block_def handle401_def)
qed

text \<open>
  C1. For a request that was sent and answered with a success status and a readable body:
  when \<^verbatim>\<open>Content-Disposition\<close> is exactly \<^verbatim>\<open>attachment; filename="Proposal_X.docx"\<close> the
  name derived, and given to the download, is exactly \<^verbatim>\<open>Proposal_X.docx\<close>; when the
  response has no \<^verbatim>\<open>Content-Disposition\<close> at all the name is \<^verbatim>\<open>proposal.docx\<close>.
\<close>

theorem download_filename:
  assumes "dispatched (snd (generate_click pg (Resolved resp))) \<noteq> []"
    and "resp_ok resp" and "blob_result resp = Inr blob"
  shows \<open>(headers_get (resp_headers resp) (js ''Content-Disposition'') =
             Some (js ''attachment; filename="Proposal_X.docx"'') \<longrightarrow>
           derive_filename (resp_headers resp) = Inr (js ''Proposal_X.docx'') \<and>
           Download (js ''Proposal_X.docx'') blob \<in> set (snd (generate_click pg (Resolved resp)))) \<and>
         (headers_get (resp_headers resp) (js ''Content-Disposition'') = None \<longrightarrow>
           derive_filename (resp_headers resp) = Inr (js ''proposal.docx'') \<and>
           Download (js ''proposal.docx'') blob \<in> set (snd (generate_click pg (Resolved resp))))\<close>
proof (intro conjI impI)
  assume h: \<open>headers_get (resp_headers resp) (js ''Content-Disposition'') =
             Some (js ''attachment; filename="Proposal_X.docx"'')\<close>
  then show f: "derive_filename (resp_headers resp) = Inr (js ''Proposal_X.docx'')"
    by (rule derive_filename_quoted)
  show "Download (js ''Proposal_X.docx'') blob \<in> set (snd (generate_click pg (Resolved resp)))"
    by (simp add: generate_click_download [OF assms f])
next
  assume h: "headers_get (resp_headers resp) (js ''Content-Disposition'') = None"
  then show f: "derive_filename (resp_headers resp) = Inr (js ''proposal.docx'')"
    by (rule derive_filename_absent)
  show "Download (js ''proposal.docx'') blob \<in> set (snd (generate_click pg (Resolved resp)))"
    by (simp add: generate_click_download [OF assms f])
qed

theorem download_filename_witness:
  \<open>dispatched (snd (generate_click demo_page (Resolved docx_response))) \<noteq> [] \<and>
   resp_ok docx_response \<and> blob_result docx_response = Inr [80, 75, 3, 4] \<and>
   headers_get (resp_headers docx_response) (js ''Content-Disposition'') =
     Some (js ''attachment; filename="Proposal_X.docx"'') \<and>
   Download (js ''Proposal_X.docx'') [80, 75, 3, 4]
     \<in> set (snd (generate_click demo_page (Resolved docx_response))) \<and>
   dispatched (snd (generate_click demo_page (Resolved bare_response))) \<noteq> [] \<and>
   resp_ok bare_response \<and> blob_result bare_response = Inr [80, 75, 3, 4] \<and>
   headers_get (resp_headers bare_response) (js ''Content-Disposition'') = None \<and>
   Download (js ''proposal.docx'') [80, 75, 3, 4]
     \<in> set (snd (generate_click demo_page (Resolved bare_response)))\<close>
proof -
  have d: "dispatched (snd (generate_click demo_page net)) \<noteq> []" for net
    by (simp add: demo_page_dispatched)
  have o1: "resp_ok docx_response" and b1: "blob_result docx_response = Inr [80, 75, 3, 4]"
    by (simp_all add: docx_response_def resp_ok_def)
  have h1: \<open>headers_get (resp_headers docx_response) (js ''Content-Disposition'') =
     Some (js ''attachment; filename="Proposal_X.docx"'')\<close>
    by (simp add: docx_response_def headers_get_def js_def lower_def)
  have o2: "resp_ok bare_response" and b2: "blob_result bare_response = Inr [80, 75, 3, 4]"
    by (simp_all add: bare_response_def docx_response_def resp_ok_def)
  have h2: "headers_get (resp_headers bare_response) (js ''Content-Disposition'') = None"
    by (simp add: bare_response_def headers_get_def)
  show ?thesis
    using d o1 b1 h1 o2 b2 h2
      download_filename [OF d o1 b1] download_filename [OF d o2 b2]
    by simp
qed

section \<open>Properties of the generation proxy\<close>

text \<open>
  C5. \<^verbatim>\<open>POST /api/generate_proposal\<close>: with no downstream configured (the variable not
  set, or empty) the reply is 501 with a JSON error and the downstream is never called.
  With a downstream configured, when the call fails at the transport (the \<^verbatim>\<open>fetch\<close>
  rejects, or the body cannot be read), the reply is 500 with the one fixed message,
  whatever the failure was, after exactly one call: nothing is tried again.
\<close>

theorem generate_proposal_failures:
  "(env_GENERATE_URL = None \<or> env_GENERATE_URL = Some [] \<longrightarrow>
      generate_proposal env_GENERATE_URL req_body fetch =
        (\<lparr> code = 501, reply_headers = [],
           reply_body = Json_error
             (js ''No generate endpoint configured on server (set GENERATE_URL in .env)'') \<rparr>,
         [])) \<and>
   (\<forall>url err. env_GENERATE_URL = Some url \<and> url \<noteq> [] \<and>
       fetch (forward_request url req_body) = Inl err \<longrightarrow>
      generate_proposal env_GENERATE_URL req_body fetch =
        (\<lparr> code = 500, reply_headers = [],
           reply_body = Json_error (js ''Failed to generate proposal'') \<rparr>,
         [forward_request url req_body])) \<and>
   (\<forall>url r err. env_GENERATE_URL = Some url \<and> url \<noteq> [] \<and>
       fetch (forward_request url req_body) = Inr r \<and> ds_buffer r = Inl err \<longrightarrow>
      generate_proposal env_GENERATE_URL req_body fetch =
        (\<lparr> code = 500, reply_headers = [],
           reply_body = Json_error (js ''Failed to generate proposal'') \<rparr>,
         [forward_request url req_body]))"
  by (auto simp: generate_proposal_def env_or_null_def proxy_failed_def Let_def)

theorem generate_proposal_failures_witness:
  "generate_proposal None (build_payload demo_page) generator =
     (\<lparr> code = 501, reply_headers = [],
        reply_body = Json_error
          (js ''No generate endpoint configured on server (set GENERATE_URL in .env)'') \<rparr>,
      []) \<and>
   generator_url \<noteq> [] \<and>
   unreachable (forward_request generator_url (build_payload demo_page)) =
     Inl (Thrown (js ''connect ECONNREFUSED 127.0.0.1:8000'')
            (js ''FetchError: connect ECONNREFUSED 127.0.0.1:8000'')) \<and>
   generate_proposal (Some generator_url) (build_payload demo_page) unreachable =
     (\<lparr> code = 500, reply_headers = [],
        reply_body = Json_error (js ''Failed to generate proposal'') \<rparr>,
      [forward_request generator_url (build_payload demo_page)]) \<and>
   generate_proposal (Some generator_url) (build_payload demo_page) cut_off_generator =
     (\<lparr> code = 500, reply_headers = [],
        reply_body = Json_error (js ''Failed to generate proposal'') \<rparr>,
      [forward_request generator_url (build_payload demo_page)])"
proof -
  have u: "generator_url \<noteq> []"
    by (simp add: generator_url_def js_def)
  have f: "unreachable (forward_request generator_url (build_payload demo_page)) =
     Inl (Thrown (js ''connect ECONNREFUSED 127.0.0.1:8000'')
            (js ''FetchError: connect ECONNREFUSED 127.0.0.1:8000''))"
    by (simp add: unreachable_def)
  have c: "cut_off_generator (forward_request generator_url (build_payload demo_page)) = Inr failing_body"
    by (simp add: cut_off_generator_def)
  have b: "ds_buffer failing_body =
      Inl (Thrown (js ''Premature close'') (js ''FetchError: Premature close''))"
    by (simp add: failing_body_def)
  have 1: "generate_proposal None (build_payload demo_page) generator =
     (\<lparr> code = 501, reply_headers = [],
        reply_body = Json_error
          (js ''No generate endpoint configured on server (set GENERATE_URL in .env)'') \<rparr>,
      [])"
    using generate_proposal_failures [of None "build_payload demo_page" generator] by simp
  have 2: "generate_proposal (Some generator_url) (build_payload demo_page) unreachable =
     (\<lparr> code = 500, reply_headers = [],
        reply_body = Json_error (js ''Failed to generate proposal'') \<rparr>,
      [forward_request generator_url (build_payload demo_page)])"
    using generate_proposal_failures
      [of "Some generator_url" "build_payload demo_page" unreachable] u f
    by blast
  have 3: "generate_proposal (Some generator_url) (build_payload demo_page) cut_off_generator =
     (\<lparr> code = 500, reply_headers = [],
        reply_body = Json_error (js ''Failed to generate proposal'') \<rparr>,
      [forward_request generator_url (build_payload demo_page)])"
    using generate_proposal_failures
      [of "Some generator_url" "build_payload demo_page" cut_off_generator] u c b
    by blast
  from u f 1 2 3 show ?thesis by simp
qed













section \<open>Properties of the catalog gateway\<close>



end
